theory Spec2Isabelle
  imports Complex_Main "HOL-Library.Word" "HOL-Library.Signed_Division"
begin

section \<open>SQL types\<close>

text \<open>
  The scalar type identifiers. The enumeration's declaration is not part of
  \<^verbatim>\<open>integer_type.cpp\<close>; the members are the ones the file names in its cast
  switch and tables, together with the remaining members of the engine's enumeration,
  on which every switch of the file takes its \<^verbatim>\<open>default\<close> branch.
\<close>

datatype TypeId =
    INVALID | BOOLEAN | TINYINT | SMALLINT | INTEGER | BIGINT | DECIMAL
  | TIMESTAMP | DATE | VARCHAR | VARBINARY

text \<open>
  A \<^verbatim>\<open>SqlType\<close> is a process-wide singleton per type identifier; comparing two
  singletons is comparing their identifiers.
\<close>

type_synonym SqlType = TypeId

definition Integer_Instance :: SqlType where
  "Integer_Instance = INTEGER"

definition Decimal_Instance :: SqlType where
  "Decimal_Instance = DECIMAL"

definition Boolean_Instance :: SqlType where
  "Boolean_Instance = BOOLEAN"

text \<open>
  Modelled from the spec: the class \<^verbatim>\<open>Type\<close> (declared in a header that is not
  among the sources). A Type wraps a SqlType together with a nullability flag. The source
  reads the fields \<^verbatim>\<open>type_id\<close> and \<^verbatim>\<open>nullable\<close>.
\<close>

record Type =
  type_id :: TypeId
  nullable :: bool

text \<open>
  Modelled from the spec: \<^verbatim>\<open>Type::operator==\<close> (not among the sources), which the
  source applies in the operators' supports checks (\<^verbatim>\<open>left_type == right_type\<close>).
  The spec has nullability ignored in these checks, which require the identical SqlType
  on both sides; the source agrees, since \<^verbatim>\<open>Abs::Impl\<close> passes its non-nullable
  zero together with an operand of either nullability through the check that
  \<^verbatim>\<open>Sub::Impl\<close> asserts. So the comparison is the one of the SqlTypes.
\<close>

definition Type_eq :: "Type \<Rightarrow> Type \<Rightarrow> bool" where
  "Type_eq a b = (type_id a = type_id b)"

definition GetSqlType :: "Type \<Rightarrow> SqlType" where
  "GetSqlType t = type_id t"

text \<open>
  Modelled from the spec: the conversion of a SqlType to a Type that the source uses
  wherever it writes \<^verbatim>\<open>Type{Integer::Instance()}\<close> or passes a singleton for a
  \<^verbatim>\<open>const Type &\<close>. The values built this way carry no null handle, so the Type is
  the non-nullable one.
\<close>

definition Type_of :: "SqlType \<Rightarrow> Type" where
  "Type_of s = \<lparr>type_id = s, nullable = False\<rparr>"

section \<open>The emitted code\<close>

text \<open>
  The code generator builds LLVM instructions through \<^verbatim>\<open>CodeGen\<close>. A handle
  (\<^verbatim>\<open>llvm::Value *\<close>) points to a constant, to a value that exists before the operator
  runs (\<open>Arg\<close>: a column read, a parameter) or to an instruction with its operands;
  \<open>nullptr\<close> is the absent handle. Only the instructions that the integer type emits
  are represented.
\<close>

datatype llvm_type = Int1Ty | Int8Ty | Int16Ty | Int32Ty | Int64Ty | DoubleTy

datatype icmp_pred = ICMP_EQ | ICMP_NE | ICMP_SLT | ICMP_SLE | ICMP_SGT | ICMP_SGE

datatype overflow_op = SAddOp | SSubOp | SMulOp

datatype llvm_value =
    nullptr
  | Arg nat
  | Const32 "32 word"
  | ConstBool bool
  | Trunc llvm_value llvm_type
  | SExt llvm_value llvm_type
  | SIToFP llvm_value llvm_type
  | ICmp icmp_pred llvm_value llvm_value
  | Sub llvm_value llvm_value
  | SDiv llvm_value llvm_value
  | SRem llvm_value llvm_value
  | Select llvm_value llvm_value llvm_value
  | WithOverflow overflow_op llvm_value llvm_value
  | ExtractValue llvm_value nat
  | PHI llvm_value llvm_value llvm_value

text \<open>
  What the generated code does when it runs, after the LLVM language reference: it
  raises one of the two faults of the runtime, or its behaviour is undefined (a division
  that LLVM leaves undefined, or an instruction applied to operands of the wrong type).
\<close>

datatype rt_error = ArithmeticOverflow | DivideByZero | UndefinedBehavior

text \<open>
  Run-time values. A \<^verbatim>\<open>double\<close> holds every 32-bit integer exactly, so the result of
  converting one is its value as a real number. \<open>VOverflow\<close> is the pair that an
  overflow-checked intrinsic returns.
\<close>

datatype rt_val =
    VI1 bool
  | VI8 "8 word"
  | VI16 "16 word"
  | VI32 "32 word"
  | VI64 "64 word"
  | VDouble real
  | VOverflow "32 word" bool

type_synonym env = "nat \<Rightarrow> rt_val"

definition INT32_MIN :: "32 word" where
  "INT32_MIN = word_of_int (- (2 ^ 31))"

definition fits_int32 :: "int \<Rightarrow> bool" where
  "fits_int32 k = (- (2 ^ 31) \<le> k \<and> k < 2 ^ 31)"

fun trunc_i32 :: "32 word \<Rightarrow> llvm_type \<Rightarrow> rt_error + rt_val" where
  "trunc_i32 w Int1Ty = Inr (VI1 (bit w 0))"
| "trunc_i32 w Int8Ty = Inr (VI8 (ucast w))"
| "trunc_i32 w Int16Ty = Inr (VI16 (ucast w))"
| "trunc_i32 w _ = Inl UndefinedBehavior"

fun sext_i32 :: "32 word \<Rightarrow> llvm_type \<Rightarrow> rt_error + rt_val" where
  "sext_i32 w Int64Ty = Inr (VI64 (scast w))"
| "sext_i32 w _ = Inl UndefinedBehavior"

fun sitofp_i32 :: "32 word \<Rightarrow> llvm_type \<Rightarrow> rt_error + rt_val" where
  "sitofp_i32 w DoubleTy = Inr (VDouble (real_of_int (sint w)))"
| "sitofp_i32 w _ = Inl UndefinedBehavior"

fun icmp_i32 :: "icmp_pred \<Rightarrow> 32 word \<Rightarrow> 32 word \<Rightarrow> bool" where
  "icmp_i32 ICMP_EQ a b = (a = b)"
| "icmp_i32 ICMP_NE a b = (a \<noteq> b)"
| "icmp_i32 ICMP_SLT a b = (sint a < sint b)"
| "icmp_i32 ICMP_SLE a b = (sint a \<le> sint b)"
| "icmp_i32 ICMP_SGT a b = (sint a > sint b)"
| "icmp_i32 ICMP_SGE a b = (sint a \<ge> sint b)"

text \<open>
  The overflow-checked intrinsics \<^verbatim>\<open>llvm.s{add,sub,mul}.with.overflow.i32\<close>: the
  result is the exact result reduced to 32 bits, the flag says whether the exact result
  is outside the signed range.
\<close>

fun exact_op :: "overflow_op \<Rightarrow> int \<Rightarrow> int \<Rightarrow> int" where
  "exact_op SAddOp x y = x + y"
| "exact_op SSubOp x y = x - y"
| "exact_op SMulOp x y = x * y"

definition with_overflow :: "overflow_op \<Rightarrow> 32 word \<Rightarrow> 32 word \<Rightarrow> rt_val" where
  "with_overflow op a b =
     (let k = exact_op op (sint a) (sint b)
      in VOverflow (word_of_int k) (\<not> fits_int32 k))"

text \<open>
  \<^verbatim>\<open>sdiv\<close> and \<^verbatim>\<open>srem\<close> round towards zero. Both are undefined on a zero divisor
  and on the one quotient that does not fit, \<open>INT32_MIN\<close> by \<open>-1\<close>.
\<close>

definition sdiv_i32 :: "32 word \<Rightarrow> 32 word \<Rightarrow> rt_error + rt_val" where
  "sdiv_i32 a b =
     (if b = 0 \<or> (a = INT32_MIN \<and> b = - 1) then Inl UndefinedBehavior
      else Inr (VI32 (word_of_int (sint a sdiv sint b))))"

definition srem_i32 :: "32 word \<Rightarrow> 32 word \<Rightarrow> rt_error + rt_val" where
  "srem_i32 a b =
     (if b = 0 \<or> (a = INT32_MIN \<and> b = - 1) then Inl UndefinedBehavior
      else Inr (VI32 (word_of_int (sint a smod sint b))))"

fun extract_value :: "rt_val \<Rightarrow> nat \<Rightarrow> rt_error + rt_val" where
  "extract_value (VOverflow w ov) i =
     (if i = 0 then Inr (VI32 w) else if i = 1 then Inr (VI1 ov) else Inl UndefinedBehavior)"
| "extract_value _ i = Inl UndefinedBehavior"

text \<open>
  The value of a handle when the generated code runs. A \<open>PHI\<close> takes the value of the
  path that ran, so only that operand is evaluated; a \<open>Select\<close> has both operands
  computed before it chooses.
\<close>

fun eval :: "env \<Rightarrow> llvm_value \<Rightarrow> rt_error + rt_val" where
  "eval env nullptr = Inl UndefinedBehavior"
| "eval env (Arg n) = Inr (env n)"
| "eval env (Const32 w) = Inr (VI32 w)"
| "eval env (ConstBool b) = Inr (VI1 b)"
| "eval env (Trunc v ty) =
     (case eval env v of Inr (VI32 w) \<Rightarrow> trunc_i32 w ty
      | Inr _ \<Rightarrow> Inl UndefinedBehavior | Inl e \<Rightarrow> Inl e)"
| "eval env (SExt v ty) =
     (case eval env v of Inr (VI32 w) \<Rightarrow> sext_i32 w ty
      | Inr _ \<Rightarrow> Inl UndefinedBehavior | Inl e \<Rightarrow> Inl e)"
| "eval env (SIToFP v ty) =
     (case eval env v of Inr (VI32 w) \<Rightarrow> sitofp_i32 w ty
      | Inr _ \<Rightarrow> Inl UndefinedBehavior | Inl e \<Rightarrow> Inl e)"
| "eval env (ICmp p l r) =
     (case (eval env l, eval env r) of
        (Inr (VI32 a), Inr (VI32 b)) \<Rightarrow> Inr (VI1 (icmp_i32 p a b))
      | (Inl e, _) \<Rightarrow> Inl e
      | (_, Inl e) \<Rightarrow> Inl e
      | _ \<Rightarrow> Inl UndefinedBehavior)"
| "eval env (Sub l r) =
     (case (eval env l, eval env r) of
        (Inr (VI32 a), Inr (VI32 b)) \<Rightarrow> Inr (VI32 (a - b))
      | (Inl e, _) \<Rightarrow> Inl e
      | (_, Inl e) \<Rightarrow> Inl e
      | _ \<Rightarrow> Inl UndefinedBehavior)"
| "eval env (SDiv l r) =
     (case (eval env l, eval env r) of
        (Inr (VI32 a), Inr (VI32 b)) \<Rightarrow> sdiv_i32 a b
      | (Inl e, _) \<Rightarrow> Inl e
      | (_, Inl e) \<Rightarrow> Inl e
      | _ \<Rightarrow> Inl UndefinedBehavior)"
| "eval env (SRem l r) =
     (case (eval env l, eval env r) of
        (Inr (VI32 a), Inr (VI32 b)) \<Rightarrow> srem_i32 a b
      | (Inl e, _) \<Rightarrow> Inl e
      | (_, Inl e) \<Rightarrow> Inl e
      | _ \<Rightarrow> Inl UndefinedBehavior)"
| "eval env (Select c x y) =
     (case (eval env c, eval env x, eval env y) of
        (Inr (VI1 b), Inr vx, Inr vy) \<Rightarrow> Inr (if b then vx else vy)
      | (Inl e, _, _) \<Rightarrow> Inl e
      | (_, Inl e, _) \<Rightarrow> Inl e
      | (_, _, Inl e) \<Rightarrow> Inl e
      | _ \<Rightarrow> Inl UndefinedBehavior)"
| "eval env (WithOverflow op l r) =
     (case (eval env l, eval env r) of
        (Inr (VI32 a), Inr (VI32 b)) \<Rightarrow> Inr (with_overflow op a b)
      | (Inl e, _) \<Rightarrow> Inl e
      | (_, Inl e) \<Rightarrow> Inl e
      | _ \<Rightarrow> Inl UndefinedBehavior)"
| "eval env (ExtractValue v i) =
     (case eval env v of Inr s \<Rightarrow> extract_value s i | Inl e \<Rightarrow> Inl e)"
| "eval env (PHI c x y) =
     (case eval env c of
        Inr (VI1 b) \<Rightarrow> (if b then eval env x else eval env y)
      | Inr _ \<Rightarrow> Inl UndefinedBehavior
      | Inl e \<Rightarrow> Inl e)"

text \<open>
  What \<^verbatim>\<open>CodeGen\<close> has emitted so far, in order: an instruction at the insertion
  point, a conditional jump to a block that raises a fault, and the three marks of a
  structured branch (\<^verbatim>\<open>lang::If\<close>).
\<close>

datatype stmt =
    Instr llvm_value
  | ThrowIf llvm_value rt_error
  | IfBegin llvm_value
  | ElseBegin
  | IfEnd

type_synonym CodeGen = "stmt list"

text \<open>
  Running the emitted statements. The list of flags has one entry per open branch: whether
  the path under construction is the one that runs. A statement on a path that does not
  run has no effect. The result is the fault raised, or \<open>None\<close> when the code runs to
  its end.
\<close>

fun exec :: "env \<Rightarrow> bool list \<Rightarrow> stmt list \<Rightarrow> rt_error option" where
  "exec env st [] = None"
| "exec env st (Instr v # ss) =
     (if list_all id st
      then (case eval env v of Inl e \<Rightarrow> Some e | Inr _ \<Rightarrow> exec env st ss)
      else exec env st ss)"
| "exec env st (ThrowIf c e # ss) =
     (if list_all id st
      then (case eval env c of
              Inr (VI1 b) \<Rightarrow> (if b then Some e else exec env st ss)
            | Inr _ \<Rightarrow> Some UndefinedBehavior
            | Inl e' \<Rightarrow> Some e')
      else exec env st ss)"
| "exec env st (IfBegin c # ss) =
     (if list_all id st
      then (case eval env c of
              Inr (VI1 b) \<Rightarrow> exec env (b # st) ss
            | Inr _ \<Rightarrow> Some UndefinedBehavior
            | Inl e' \<Rightarrow> Some e')
      else exec env (False # st) ss)"
| "exec env (b # st) (ElseBegin # ss) = exec env ((\<not> b \<and> list_all id st) # st) ss"
| "exec env [] (ElseBegin # ss) = Some UndefinedBehavior"
| "exec env (b # st) (IfEnd # ss) = exec env st ss"
| "exec env [] (IfEnd # ss) = Some UndefinedBehavior"

subsection \<open>The builder's operations\<close>

text \<open>
  Modelled from the spec: the primitive emission operations of the IR emission
  collaborator (\<^verbatim>\<open>CodeGen\<close> and the LLVM builder behind \<^verbatim>\<open>codegen->\<close>), which
  the spec lists as arithmetic with overflow flags, comparisons, casts, select, branch
  and merge, constants, and a hook raising a fault. Each returns the handle of what it
  emitted and the builder with the instruction appended. The builder's folding of
  constant operands is not represented: every operation appends its instruction. The
  boolean type is one bit wide, so that a truncation to it keeps the low bit.
\<close>

definition BoolType :: llvm_type where "BoolType = Int1Ty"
definition Int8Type :: llvm_type where "Int8Type = Int8Ty"
definition Int16Type :: llvm_type where "Int16Type = Int16Ty"
definition Int64Type :: llvm_type where "Int64Type = Int64Ty"
definition DoubleType :: llvm_type where "DoubleType = DoubleTy"

definition emit :: "CodeGen \<Rightarrow> llvm_value \<Rightarrow> llvm_value \<times> CodeGen" where
  "emit codegen v = (v, codegen @ [Instr v])"

definition CreateTrunc :: "CodeGen \<Rightarrow> llvm_value \<Rightarrow> llvm_type \<Rightarrow> llvm_value \<times> CodeGen" where
  "CreateTrunc codegen v ty = emit codegen (Trunc v ty)"

definition CreateSExt :: "CodeGen \<Rightarrow> llvm_value \<Rightarrow> llvm_type \<Rightarrow> llvm_value \<times> CodeGen" where
  "CreateSExt codegen v ty = emit codegen (SExt v ty)"

definition CreateSIToFP :: "CodeGen \<Rightarrow> llvm_value \<Rightarrow> llvm_type \<Rightarrow> llvm_value \<times> CodeGen" where
  "CreateSIToFP codegen v ty = emit codegen (SIToFP v ty)"


definition CreateICmpNE :: "CodeGen \<Rightarrow> llvm_value \<Rightarrow> llvm_value \<Rightarrow> llvm_value \<times> CodeGen" where
  "CreateICmpNE codegen l r = emit codegen (ICmp ICMP_NE l r)"

definition CreateICmpSLT :: "CodeGen \<Rightarrow> llvm_value \<Rightarrow> llvm_value \<Rightarrow> llvm_value \<times> CodeGen" where
  "CreateICmpSLT codegen l r = emit codegen (ICmp ICMP_SLT l r)"

definition CreateICmpSLE :: "CodeGen \<Rightarrow> llvm_value \<Rightarrow> llvm_value \<Rightarrow> llvm_value \<times> CodeGen" where
  "CreateICmpSLE codegen l r = emit codegen (ICmp ICMP_SLE l r)"

definition CreateICmpSGT :: "CodeGen \<Rightarrow> llvm_value \<Rightarrow> llvm_value \<Rightarrow> llvm_value \<times> CodeGen" where
  "CreateICmpSGT codegen l r = emit codegen (ICmp ICMP_SGT l r)"

definition CreateICmpSGE :: "CodeGen \<Rightarrow> llvm_value \<Rightarrow> llvm_value \<Rightarrow> llvm_value \<times> CodeGen" where
  "CreateICmpSGE codegen l r = emit codegen (ICmp ICMP_SGE l r)"

definition CreateSub :: "CodeGen \<Rightarrow> llvm_value \<Rightarrow> llvm_value \<Rightarrow> llvm_value \<times> CodeGen" where
  "CreateSub codegen l r = emit codegen (Sub l r)"



definition CreateSelect ::
  "CodeGen \<Rightarrow> llvm_value \<Rightarrow> llvm_value \<Rightarrow> llvm_value \<Rightarrow> llvm_value \<times> CodeGen" where
  "CreateSelect codegen c x y = emit codegen (Select c x y)"

text \<open>
  Modelled from the spec: \<^verbatim>\<open>CodeGen::Call{Add,Sub,Mul}WithOverflow\<close> (not among
  the sources). An overflow-checked primitive yields both a result and an overflow flag:
  the call of the intrinsic and the two extractions. The pair returned is (result,
  overflow bit); the source receives the overflow bit through a reference argument.
\<close>

definition CallWithOverflow ::
  "overflow_op \<Rightarrow> CodeGen \<Rightarrow> llvm_value \<Rightarrow> llvm_value \<Rightarrow> (llvm_value \<times> llvm_value) \<times> CodeGen" where
  "CallWithOverflow op codegen l r =
     (let (call, codegen) = emit codegen (WithOverflow op l r);
          (overflow_bit, codegen) = emit codegen (ExtractValue call 1);
          (result, codegen) = emit codegen (ExtractValue call 0)
      in ((result, overflow_bit), codegen))"

definition CallAddWithOverflow ::
  "CodeGen \<Rightarrow> llvm_value \<Rightarrow> llvm_value \<Rightarrow> (llvm_value \<times> llvm_value) \<times> CodeGen" where
  "CallAddWithOverflow = CallWithOverflow SAddOp"

definition CallSubWithOverflow ::
  "CodeGen \<Rightarrow> llvm_value \<Rightarrow> llvm_value \<Rightarrow> (llvm_value \<times> llvm_value) \<times> CodeGen" where
  "CallSubWithOverflow = CallWithOverflow SSubOp"

definition CallMulWithOverflow ::
  "CodeGen \<Rightarrow> llvm_value \<Rightarrow> llvm_value \<Rightarrow> (llvm_value \<times> llvm_value) \<times> CodeGen" where
  "CallMulWithOverflow = CallWithOverflow SMulOp"

text \<open>
  Modelled from the spec: \<^verbatim>\<open>CodeGen::ThrowIfOverflow\<close> and
  \<^verbatim>\<open>CodeGen::ThrowIfDivideByZero\<close> (not among the sources), the fault-raising
  hooks: each emits a check that raises its fault when the flag is set at run time.
\<close>

definition ThrowIfOverflow :: "CodeGen \<Rightarrow> llvm_value \<Rightarrow> CodeGen" where
  "ThrowIfOverflow codegen overflow = codegen @ [ThrowIf overflow ArithmeticOverflow]"


section \<open>Values\<close>

text \<open>
  Modelled from the spec: the class \<^verbatim>\<open>Value\<close> (not among the sources). It holds a
  Type, a handle to the emitted primary data, an optional handle to a length and an
  optional handle to a boolean is-null flag; an absent handle is \<open>nullptr\<close>, and an
  absent null handle means "never null". The constructor's trailing arguments default to
  \<open>nullptr\<close>.
\<close>

record Value =
  GetType :: Type
  GetValue :: llvm_value
  GetLength :: llvm_value
  GetNull :: llvm_value

definition Value4 :: "Type \<Rightarrow> llvm_value \<Rightarrow> llvm_value \<Rightarrow> llvm_value \<Rightarrow> Value" where
  "Value4 t v l n = \<lparr>GetType = t, GetValue = v, GetLength = l, GetNull = n\<rparr>"

definition Value2 :: "Type \<Rightarrow> llvm_value \<Rightarrow> Value" where
  "Value2 t v = Value4 t v nullptr nullptr"


text \<open>An integer constant as a Value, as \<^verbatim>\<open>Value{type::Integer::Instance(), codegen.Const32(0)}\<close>.\<close>

definition Integer_Const :: "32 word \<Rightarrow> Value" where
  "Integer_Const w = Value2 (Type_of Integer_Instance) (Const32 w)"

text \<open>
  Modelled from the spec: the null flag of a Value as a handle; an absent null handle
  means "never null".
\<close>

definition IsNull :: "Value \<Rightarrow> llvm_value" where
  "IsNull v = (if GetNull v = nullptr then ConstBool False else GetNull v)"






section \<open>Invocation context and failures of code generation\<close>

text \<open>
  The error policy of an invocation. The enumeration is declared in a header that is not
  among the sources; the source tests \<^verbatim>\<open>ctx.on_error\<close> against
  \<^verbatim>\<open>OnError::ReturnNull\<close> and \<^verbatim>\<open>OnError::Exception\<close> (the spec's
  \<^verbatim>\<open>RaiseError\<close>) only. \<open>OutOfEnumeration n\<close> stands for a value of the
  enumeration's underlying integer type that is neither.
\<close>

datatype OnError = ReturnNull | Exception | OutOfEnumeration nat

record InvocationContext =
  on_error :: OnError

text \<open>
  What can stop an operator while it generates code: a failed \<^verbatim>\<open>PELOTON_ASSERT\<close>, or
  the exception that the cast throws, with its message.
\<close>

datatype cg_error = AssertionFailed | ExceptionThrown string

section \<open>The integer type's operators\<close>


subsection \<open>Casting\<close>

definition CastInteger_SupportsTypes :: "Type \<Rightarrow> Type \<Rightarrow> bool" where
  "CastInteger_SupportsTypes from_type to_type =
     (if GetSqlType from_type \<noteq> Integer_Instance then False
      else (case GetSqlType to_type of
              BOOLEAN \<Rightarrow> True
            | TINYINT \<Rightarrow> True
            | SMALLINT \<Rightarrow> True
            | INTEGER \<Rightarrow> True
            | BIGINT \<Rightarrow> True
            | DECIMAL \<Rightarrow> True
            | _ \<Rightarrow> False))"

text \<open>
  \<^verbatim>\<open>CastInteger::Impl\<close>. \<^verbatim>\<open>TypeIdToString\<close> is defined elsewhere and is a
  parameter; \<^verbatim>\<open>StringUtil::Format\<close> with the pattern \<^verbatim>\<open>"Cannot cast %s to %s"\<close>
  is the concatenation.
\<close>

definition CastInteger_Impl ::
  "(TypeId \<Rightarrow> string) \<Rightarrow> CodeGen \<Rightarrow> Value \<Rightarrow> Type \<Rightarrow> cg_error + Value \<times> CodeGen" where
  "CastInteger_Impl TypeIdToString codegen val to_type =
     (case (case GetSqlType to_type of
              BOOLEAN \<Rightarrow> Some (CreateTrunc codegen (GetValue val) BoolType)
            | TINYINT \<Rightarrow> Some (CreateTrunc codegen (GetValue val) Int8Type)
            | SMALLINT \<Rightarrow> Some (CreateTrunc codegen (GetValue val) Int16Type)
            | INTEGER \<Rightarrow> Some (GetValue val, codegen)
            | BIGINT \<Rightarrow> Some (CreateSExt codegen (GetValue val) Int64Type)
            | DECIMAL \<Rightarrow> Some (CreateSIToFP codegen (GetValue val) DoubleType)
            | _ \<Rightarrow> None) of
        None \<Rightarrow>
          Inl (ExceptionThrown
                (''Cannot cast '' @ TypeIdToString (type_id (GetType val)) @ '' to ''
                   @ TypeIdToString (type_id to_type)))
      | Some (result, codegen) \<Rightarrow>
          (let null = (if nullable to_type then ConstBool False else nullptr)
           in Inr (Value4 to_type result nullptr null, codegen)))"

subsection \<open>Comparison\<close>

definition CompareInteger_SupportsTypes :: "Type \<Rightarrow> Type \<Rightarrow> bool" where
  "CompareInteger_SupportsTypes left_type right_type =
     (Type_eq left_type (Type_of Integer_Instance) \<and> Type_eq left_type right_type)"

definition CompareForSortImpl :: "CodeGen \<Rightarrow> Value \<Rightarrow> Value \<Rightarrow> Value \<times> CodeGen" where
  "CompareForSortImpl codegen left right =
     (let (diff, codegen) = CreateSub codegen (GetValue left) (GetValue right)
      in (Value4 (Type_of Integer_Instance) diff nullptr nullptr, codegen))"

subsection \<open>Binary operations\<close>

definition Add_SupportsTypes :: "Type \<Rightarrow> Type \<Rightarrow> bool" where
  "Add_SupportsTypes left_type right_type =
     (GetSqlType left_type = Integer_Instance \<and> Type_eq left_type right_type)"


definition Sub_SupportsTypes :: "Type \<Rightarrow> Type \<Rightarrow> bool" where
  "Sub_SupportsTypes left_type right_type =
     (GetSqlType left_type = Integer_Instance \<and> Type_eq left_type right_type)"

definition Sub_Impl ::
  "CodeGen \<Rightarrow> Value \<Rightarrow> Value \<Rightarrow> InvocationContext \<Rightarrow> cg_error + Value \<times> CodeGen" where
  "Sub_Impl codegen left right ctx =
     (if \<not> Sub_SupportsTypes (GetType left) (GetType right) then Inl AssertionFailed
      else
        (let ((result, overflow_bit), codegen) =
               CallSubWithOverflow codegen (GetValue left) (GetValue right);
             codegen = (if on_error ctx = Exception
                        then ThrowIfOverflow codegen overflow_bit else codegen)
         in Inr (Value2 (Type_of Integer_Instance) result, codegen)))"

definition Mul_SupportsTypes :: "Type \<Rightarrow> Type \<Rightarrow> bool" where
  "Mul_SupportsTypes left_type right_type =
     (GetSqlType left_type = Integer_Instance \<and> Type_eq left_type right_type)"


definition Div_SupportsTypes :: "Type \<Rightarrow> Type \<Rightarrow> bool" where
  "Div_SupportsTypes left_type right_type =
     (GetSqlType left_type = Integer_Instance \<and> Type_eq left_type right_type)"


definition Modulo_SupportsTypes :: "Type \<Rightarrow> Type \<Rightarrow> bool" where
  "Modulo_SupportsTypes left_type right_type =
     (GetSqlType left_type = Integer_Instance \<and> Type_eq left_type right_type)"


subsection \<open>Unary operations\<close>

definition Abs_SupportsType :: "Type \<Rightarrow> bool" where
  "Abs_SupportsType t = (GetSqlType t = Integer_Instance)"

definition Abs_Impl ::
  "CodeGen \<Rightarrow> Value \<Rightarrow> InvocationContext \<Rightarrow> cg_error + Value \<times> CodeGen" where
  "Abs_Impl codegen val ctx =
     (let zero = Value2 (Type_of Integer_Instance) (Const32 0)
      in case Sub_Impl codegen zero val ctx of
           Inl e \<Rightarrow> Inl e
         | Inr (sub_result, codegen) \<Rightarrow>
             (let (lt_zero, codegen) = CreateICmpSLT codegen (GetValue val) (GetValue zero);
                  (raw_ret, codegen) =
                    CreateSelect codegen lt_zero (GetValue sub_result) (GetValue val)
              in Inr (Value2 (Type_of Integer_Instance) raw_ret, codegen)))"

definition Negate_SupportsType :: "Type \<Rightarrow> bool" where
  "Negate_SupportsType t = (GetSqlType t = Integer_Instance)"

definition Negate_Impl ::
  "CodeGen \<Rightarrow> Value \<Rightarrow> InvocationContext \<Rightarrow> cg_error + Value \<times> CodeGen" where
  "Negate_Impl codegen val ctx =
     (if \<not> Negate_SupportsType (GetType val) then Inl AssertionFailed
      else
        (let ((result, overflow_bit), codegen) =
               CallSubWithOverflow codegen (Const32 0) (GetValue val);
             codegen = ThrowIfOverflow codegen overflow_bit
         in Inr (Value4 (Type_of Integer_Instance) result nullptr nullptr, codegen)))"

section \<open>Running what an operator emitted\<close>

text \<open>
  The observable result of an operator: code generation fails, or the code it appended
  to the builder is run and either raises, or leaves a Value that is SQL NULL (its null
  flag is set; the data is then not inspected) or holds the data read from its handle. A
  Value without a null handle is never null.
\<close>

datatype outcome = Failed cg_error | Raised rt_error | SqlNull | SqlValue rt_val

text \<open>The environment of code that reads no value computed before it: constants only.\<close>

definition no_inputs :: env where
  "no_inputs n = VI1 False"

text \<open>
  A sample for the parameter \<^verbatim>\<open>TypeIdToString\<close>: each type identifier printed as
  its enumerator is spelled.
\<close>

fun enumerator_name :: "TypeId \<Rightarrow> string" where
  "enumerator_name INVALID = ''INVALID''"
| "enumerator_name BOOLEAN = ''BOOLEAN''"
| "enumerator_name TINYINT = ''TINYINT''"
| "enumerator_name SMALLINT = ''SMALLINT''"
| "enumerator_name INTEGER = ''INTEGER''"
| "enumerator_name BIGINT = ''BIGINT''"
| "enumerator_name DECIMAL = ''DECIMAL''"
| "enumerator_name TIMESTAMP = ''TIMESTAMP''"
| "enumerator_name DATE = ''DATE''"
| "enumerator_name VARCHAR = ''VARCHAR''"
| "enumerator_name VARBINARY = ''VARBINARY''"

definition run :: "env \<Rightarrow> CodeGen \<Rightarrow> cg_error + Value \<times> CodeGen \<Rightarrow> outcome" where
  "run env codegen r =
     (case r of
        Inl e \<Rightarrow> Failed e
      | Inr (v, codegen') \<Rightarrow>
          (case exec env [] (drop (length codegen) codegen') of
             Some e \<Rightarrow> Raised e
           | None \<Rightarrow>
               (case eval env (IsNull v) of
                  Inl e \<Rightarrow> Raised e
                | Inr (VI1 is_null) \<Rightarrow>
                    (if is_null then SqlNull
                     else (case eval env (GetValue v) of
                             Inl e \<Rightarrow> Raised e
                           | Inr x \<Rightarrow> SqlValue x))
                | Inr _ \<Rightarrow> Raised UndefinedBehavior)))"

section \<open>Arithmetic on 32-bit words\<close>

lemma sint_fits: "fits_int32 (sint (w :: 32 word))"
  using sint_range_size [of w] by (simp add: fits_int32_def word_size)

lemma sint_word_of_int_fits:
  "fits_int32 k \<Longrightarrow> sint (word_of_int k :: 32 word) = k"
  by (simp add: fits_int32_def signed_take_bit_int_eq_self sint_sbintrunc')

lemma sint_sub_fits:
  "fits_int32 (sint a - sint b) \<Longrightarrow> sint (a - b :: 32 word) = sint a - sint b"
  using sint_word_of_int_fits [of "sint a - sint b"] by simp

section \<open>Comparison for sorting\<close>

text \<open>
  C5. For operands \<open>a\<close> and \<open>b\<close> whose difference fits the 32-bit signed range,
  running what \<open>CompareForSortImpl\<close> emits yields a non-null Value of the integer
  type whose data, read as a signed integer, is exactly \<open>a - b\<close>: the difference
  itself, not its sign.
\<close>

theorem CompareForSortImpl_difference:
  assumes "eval env (GetValue left) = Inr (VI32 a)"
      and "eval env (GetValue right) = Inr (VI32 b)"
      and "fits_int32 (sint a - sint b)"
  shows "run env codegen (Inr (CompareForSortImpl codegen left right)) = SqlValue (VI32 (a - b))
       \<and> sint (a - b) = sint a - sint b
       \<and> GetType (fst (CompareForSortImpl codegen left right)) = Type_of Integer_Instance"
  using assms
  by (simp add: run_def CompareForSortImpl_def CreateSub_def emit_def Value4_def IsNull_def
      sint_sub_fits)

theorem CompareForSortImpl_difference_witness:
  "eval no_inputs (GetValue (Integer_Const 7)) = Inr (VI32 7)
   \<and> eval no_inputs (GetValue (Integer_Const 10)) = Inr (VI32 10)
   \<and> fits_int32 (sint (7 :: 32 word) - sint (10 :: 32 word))
   \<and> run no_inputs []
        (Inr (CompareForSortImpl [] (Integer_Const 7) (Integer_Const 10)))
       = SqlValue (VI32 (- 3))
   \<and> sint (- 3 :: 32 word) = - 3"
proof -
  have l: "eval no_inputs (GetValue (Integer_Const 7)) = Inr (VI32 7)"
    by (simp add: Integer_Const_def Value2_def Value4_def)
  have r: "eval no_inputs (GetValue (Integer_Const 10)) = Inr (VI32 10)"
    by (simp add: Integer_Const_def Value2_def Value4_def)
  have f: "fits_int32 (sint (7 :: 32 word) - sint (10 :: 32 word))"
    by (simp add: fits_int32_def)
  from l r f CompareForSortImpl_difference [OF l r f, of "[]"] show ?thesis
    by simp
qed



lemma neg_overflow_iff: "fits_int32 (0 - sint (a :: 32 word)) \<longleftrightarrow> a \<noteq> INT32_MIN"
proof
  assume f: "fits_int32 (0 - sint a)"
  show "a \<noteq> INT32_MIN"
  proof
    assume "a = INT32_MIN"
    then have "sint a = - (2 ^ 31)" by (simp add: INT32_MIN_def)
    with f show False by (simp add: fits_int32_def)
  qed
next
  assume n: "a \<noteq> INT32_MIN"
  have "sint a \<noteq> - (2 ^ 31)"
  proof
    assume "sint a = - (2 ^ 31)"
    then have "word_of_int (sint a) = (word_of_int (- (2 ^ 31)) :: 32 word)" by simp
    then have "a = INT32_MIN" by (simp add: INT32_MIN_def)
    with n show False by simp
  qed
  with sint_fits [of a] show "fits_int32 (0 - sint a)" by (simp add: fits_int32_def)
qed

lemma sint_neg: "a \<noteq> INT32_MIN \<Longrightarrow> sint (- a :: 32 word) = - sint a"
  using sint_sub_fits [of 0 a] neg_overflow_iff [of a] by simp

section \<open>Overflow-checked arithmetic\<close>

lemmas checked_defs =
  CallAddWithOverflow_def CallSubWithOverflow_def CallMulWithOverflow_def
  CallWithOverflow_def emit_def ThrowIfOverflow_def with_overflow_def Let_def
  IsNull_def Value4_def Value2_def run_def

lemmas same_integer_type_defs =
  Add_SupportsTypes_def Sub_SupportsTypes_def Mul_SupportsTypes_def
  Div_SupportsTypes_def Modulo_SupportsTypes_def Type_eq_def


lemma Sub_Impl_run:
  assumes "Sub_SupportsTypes (GetType left) (GetType right)"
      and "eval env (GetValue left) = Inr (VI32 a)"
      and "eval env (GetValue right) = Inr (VI32 b)"
  shows "run env codegen (Sub_Impl codegen left right ctx) =
           (if on_error ctx = Exception \<and> \<not> fits_int32 (sint a - sint b)
            then Raised ArithmeticOverflow else SqlValue (VI32 (a - b)))"
  using assms by (simp add: Sub_Impl_def checked_defs)


lemma Negate_Impl_run:
  assumes "Negate_SupportsType (GetType val)"
      and "eval env (GetValue val) = Inr (VI32 a)"
  shows "run env codegen (Negate_Impl codegen val ctx) =
           (if a = INT32_MIN then Raised ArithmeticOverflow else SqlValue (VI32 (- a)))"
  using assms neg_overflow_iff [of a] by (simp add: Negate_Impl_def checked_defs)

lemma Integer_Const_simps:
  "GetType (Integer_Const w) = Type_of Integer_Instance"
  "GetValue (Integer_Const w) = Const32 w"
  "GetNull (Integer_Const w) = nullptr"
  by (simp_all add: Integer_Const_def Value2_def Value4_def)





section \<open>Negation\<close>

text \<open>
  C2. The subtraction from zero that \<open>Negate_Impl\<close> emits overflows on exactly one
  operand, \<open>INT32_MIN\<close>. There, running the operator raises
  \<open>ArithmeticOverflow\<close> whatever the invocation context, also under
  \<open>ReturnNull\<close>; on every other operand it yields the non-null value \<open>- a\<close>.
  It never yields SQL NULL.
\<close>

theorem Negate_Impl_always_raises_on_overflow:
  assumes "Negate_SupportsType (GetType val)"
      and "eval env (GetValue val) = Inr (VI32 a)"
  shows "(\<not> fits_int32 (0 - sint a) \<longleftrightarrow> a = INT32_MIN)
       \<and> run env codegen (Negate_Impl codegen val ctx) =
           (if a = INT32_MIN then Raised ArithmeticOverflow else SqlValue (VI32 (- a)))
       \<and> (a \<noteq> INT32_MIN \<longrightarrow> sint (- a) = - sint a)
       \<and> run env codegen (Negate_Impl codegen val ctx) \<noteq> SqlNull"
  using neg_overflow_iff [of a]
  by (simp add: Negate_Impl_run [OF assms] sint_neg)

theorem Negate_Impl_always_raises_on_overflow_witness:
  "Negate_SupportsType (GetType (Integer_Const INT32_MIN))
   \<and> eval no_inputs (GetValue (Integer_Const INT32_MIN)) = Inr (VI32 INT32_MIN)
   \<and> run no_inputs []
       (Negate_Impl [] (Integer_Const INT32_MIN) \<lparr>on_error = ReturnNull\<rparr>)
       = Raised ArithmeticOverflow
   \<and> run no_inputs []
       (Negate_Impl [] (Integer_Const INT32_MIN) \<lparr>on_error = Exception\<rparr>)
       = Raised ArithmeticOverflow
   \<and> Negate_SupportsType (GetType (Integer_Const 5))
   \<and> eval no_inputs (GetValue (Integer_Const 5)) = Inr (VI32 5)
   \<and> (5 :: 32 word) \<noteq> INT32_MIN
   \<and> run no_inputs []
       (Negate_Impl [] (Integer_Const 5) \<lparr>on_error = ReturnNull\<rparr>)
       = SqlValue (VI32 (- 5))
   \<and> sint (- 5 :: 32 word) = - sint (5 :: 32 word)"
  using
    Negate_Impl_always_raises_on_overflow
      [of "Integer_Const INT32_MIN" no_inputs INT32_MIN "[]" "\<lparr>on_error = ReturnNull\<rparr>"]
    Negate_Impl_always_raises_on_overflow
      [of "Integer_Const INT32_MIN" no_inputs INT32_MIN "[]" "\<lparr>on_error = Exception\<rparr>"]
    Negate_Impl_always_raises_on_overflow
      [of "Integer_Const 5" no_inputs 5 "[]" "\<lparr>on_error = ReturnNull\<rparr>"]
  by (simp add: Integer_Const_simps Negate_SupportsType_def GetSqlType_def Type_of_def
      INT32_MIN_def)

section \<open>Absolute value\<close>

lemma Abs_Impl_Sub_Impl:
  "Abs_Impl codegen val ctx =
     (case Sub_Impl codegen (Integer_Const 0) val ctx of
        Inl e \<Rightarrow> Inl e
      | Inr (sub_result, codegen') \<Rightarrow>
          Inr (Value2 (Type_of Integer_Instance)
                 (Select (ICmp ICMP_SLT (GetValue val) (Const32 0))
                    (GetValue sub_result) (GetValue val)),
               codegen' @
               [Instr (ICmp ICMP_SLT (GetValue val) (Const32 0)),
                Instr (Select (ICmp ICMP_SLT (GetValue val) (Const32 0))
                         (GetValue sub_result) (GetValue val))]))"
  by (simp add: Abs_Impl_def Integer_Const_def CreateICmpSLT_def CreateSelect_def emit_def
      Value2_def Value4_def Let_def split: sum.split prod.split)

lemma neg_fits_iff: "fits_int32 (- sint (a :: 32 word)) \<longleftrightarrow> a \<noteq> INT32_MIN"
  using neg_overflow_iff [of a] by simp

lemma Abs_Impl_run:
  assumes "Abs_SupportsType (GetType val)"
      and "eval env (GetValue val) = Inr (VI32 a)"
  shows "run env codegen (Abs_Impl codegen val ctx) =
           (if on_error ctx = Exception \<and> a = INT32_MIN then Raised ArithmeticOverflow
            else SqlValue (VI32 (if sint a < 0 then - a else a)))"
  using assms
  by (simp add: Abs_Impl_def Abs_SupportsType_def Sub_Impl_def Sub_SupportsTypes_def
      Type_eq_def GetSqlType_def Type_of_def CreateICmpSLT_def CreateSelect_def checked_defs
      neg_fits_iff)

lemma sint_abs:
  "a \<noteq> INT32_MIN \<Longrightarrow> sint (if sint a < 0 then - a else a :: 32 word) = \<bar>sint a\<bar>"
  by (simp add: sint_neg)

text \<open>
  C9. \<open>Abs_Impl\<close> is the family's subtraction applied to the constant \<open>0\<close> and
  the operand, followed by a signed comparison of the operand with \<open>0\<close> and a select
  between the difference and the operand. For an operand \<open>a\<close> that the operator
  supports (its SqlType is the integer type, nullable or not) other than
  \<open>INT32_MIN\<close>, running it yields the non-null value \<open>|a|\<close>. It
  raises exactly the faults that this subtraction raises; at \<open>INT32_MIN\<close> under
  the policy \<open>Exception\<close> that is \<open>ArithmeticOverflow\<close>.
\<close>

theorem Abs_Impl_select_of_Sub_Impl:
  assumes "Abs_SupportsType (GetType val)"
      and "eval env (GetValue val) = Inr (VI32 a)"
  shows "Abs_Impl codegen val ctx =
           (case Sub_Impl codegen (Integer_Const 0) val ctx of
              Inl e \<Rightarrow> Inl e
            | Inr (sub_result, codegen') \<Rightarrow>
                Inr (Value2 (Type_of Integer_Instance)
                       (Select (ICmp ICMP_SLT (GetValue val) (Const32 0))
                          (GetValue sub_result) (GetValue val)),
                     codegen' @
                     [Instr (ICmp ICMP_SLT (GetValue val) (Const32 0)),
                      Instr (Select (ICmp ICMP_SLT (GetValue val) (Const32 0))
                               (GetValue sub_result) (GetValue val))]))
       \<and> (a \<noteq> INT32_MIN \<longrightarrow>
            run env codegen (Abs_Impl codegen val ctx)
              = SqlValue (VI32 (if sint a < 0 then - a else a))
          \<and> sint (if sint a < 0 then - a else a) = \<bar>sint a\<bar>)
       \<and> (\<forall>e. run env codegen (Abs_Impl codegen val ctx) = Raised e
              \<longleftrightarrow> run env codegen (Sub_Impl codegen (Integer_Const 0) val ctx) = Raised e)
       \<and> (a = INT32_MIN \<and> on_error ctx = Exception \<longrightarrow>
            run env codegen (Abs_Impl codegen val ctx) = Raised ArithmeticOverflow)"
proof -
  have t: "Sub_SupportsTypes (GetType (Integer_Const 0)) (GetType val)"
    using assms(1)
    by (simp add: Abs_SupportsType_def Sub_SupportsTypes_def Type_eq_def Integer_Const_simps
        GetSqlType_def Type_of_def)
  have z: "eval env (GetValue (Integer_Const 0)) = Inr (VI32 0)"
    by (simp add: Integer_Const_simps)
  have s: "run env codegen (Sub_Impl codegen (Integer_Const 0) val ctx) =
             (if on_error ctx = Exception \<and> a = INT32_MIN then Raised ArithmeticOverflow
              else SqlValue (VI32 (0 - a)))"
    using Sub_Impl_run [OF t z assms(2), of codegen ctx] neg_overflow_iff [of a] by simp
  show ?thesis
    unfolding Abs_Impl_run [OF assms] s
    using Abs_Impl_Sub_Impl [of codegen val ctx] sint_abs [of a] by auto
qed

theorem Abs_Impl_select_of_Sub_Impl_witness:
  "Abs_SupportsType (GetType (Integer_Const (- 7)))
   \<and> eval no_inputs (GetValue (Integer_Const (- 7))) = Inr (VI32 (- 7))
   \<and> (- 7 :: 32 word) \<noteq> INT32_MIN
   \<and> sint (- 7 :: 32 word) < 0
   \<and> run no_inputs [] (Abs_Impl [] (Integer_Const (- 7)) \<lparr>on_error = Exception\<rparr>)
       = SqlValue (VI32 (- (- 7)))
   \<and> Abs_SupportsType (GetType (Integer_Const INT32_MIN))
   \<and> eval no_inputs (GetValue (Integer_Const INT32_MIN)) = Inr (VI32 INT32_MIN)
   \<and> run no_inputs [] (Abs_Impl [] (Integer_Const INT32_MIN) \<lparr>on_error = Exception\<rparr>)
       = Raised ArithmeticOverflow
   \<and> Abs_SupportsType
        (GetType (Value4 \<lparr>type_id = INTEGER, nullable = True\<rparr> (Const32 (- 7)) nullptr
                    (ConstBool False)))
   \<and> eval no_inputs
        (GetValue (Value4 \<lparr>type_id = INTEGER, nullable = True\<rparr> (Const32 (- 7)) nullptr
                     (ConstBool False))) = Inr (VI32 (- 7))
   \<and> run no_inputs []
        (Abs_Impl []
           (Value4 \<lparr>type_id = INTEGER, nullable = True\<rparr> (Const32 (- 7)) nullptr
              (ConstBool False))
           \<lparr>on_error = ReturnNull\<rparr>)
       = SqlValue (VI32 (- (- 7)))"
proof -
  have a1: "Abs_SupportsType (GetType (Integer_Const (- 7)))"
    and b1: "Abs_SupportsType (GetType (Integer_Const INT32_MIN))"
    and c1: "Abs_SupportsType
        (GetType (Value4 \<lparr>type_id = INTEGER, nullable = True\<rparr> (Const32 (- 7)) nullptr
                    (ConstBool False)))"
    by (simp_all add: Abs_SupportsType_def Integer_Const_simps GetSqlType_def Type_of_def
        Integer_Instance_def Value4_def)
  have a2: "eval no_inputs (GetValue (Integer_Const (- 7))) = Inr (VI32 (- 7))"
    and b2: "eval no_inputs (GetValue (Integer_Const INT32_MIN)) = Inr (VI32 INT32_MIN)"
    and c2: "eval no_inputs
        (GetValue (Value4 \<lparr>type_id = INTEGER, nullable = True\<rparr> (Const32 (- 7)) nullptr
                     (ConstBool False))) = Inr (VI32 (- 7))"
    by (simp_all add: Integer_Const_simps Value4_def)
  have n: "(- 7 :: 32 word) \<noteq> INT32_MIN" "sint (- 7 :: 32 word) < 0"
    by (simp_all add: INT32_MIN_def)
  have e: "on_error \<lparr>on_error = Exception\<rparr> = Exception"
    by simp
  from Abs_Impl_select_of_Sub_Impl
         [OF a1 a2, of "[]" "\<lparr>on_error = Exception\<rparr>", THEN conjunct2, THEN conjunct1] n
  have r1: "run no_inputs [] (Abs_Impl [] (Integer_Const (- 7)) \<lparr>on_error = Exception\<rparr>)
       = SqlValue (VI32 (- (- 7)))"
    by simp
  from Abs_Impl_select_of_Sub_Impl
         [OF b1 b2, of "[]" "\<lparr>on_error = Exception\<rparr>", THEN conjunct2, THEN conjunct2,
          THEN conjunct2] e
  have r2: "run no_inputs [] (Abs_Impl [] (Integer_Const INT32_MIN) \<lparr>on_error = Exception\<rparr>)
       = Raised ArithmeticOverflow"
    by simp
  from Abs_Impl_select_of_Sub_Impl
         [OF c1 c2, of "[]" "\<lparr>on_error = ReturnNull\<rparr>", THEN conjunct2, THEN conjunct1] n
  have r3: "run no_inputs []
        (Abs_Impl []
           (Value4 \<lparr>type_id = INTEGER, nullable = True\<rparr> (Const32 (- 7)) nullptr
              (ConstBool False))
           \<lparr>on_error = ReturnNull\<rparr>)
       = SqlValue (VI32 (- (- 7)))"
    by simp
  from a1 a2 b1 b2 c1 c2 n r1 r2 r3 show ?thesis by blast
qed

section \<open>Division and modulo\<close>



















section \<open>Casting\<close>

lemmas cast_defs =
  CastInteger_Impl_def GetSqlType_def CreateTrunc_def CreateSExt_def CreateSIToFP_def
  emit_def BoolType_def Int8Type_def Int16Type_def Int64Type_def DoubleType_def

lemma CastInteger_Impl_run:
  assumes "eval env (GetValue val) = Inr (VI32 w)"
  shows "run env codegen (CastInteger_Impl names codegen val to_type) =
           (case type_id to_type of
              BOOLEAN \<Rightarrow> SqlValue (VI1 (bit w 0))
            | TINYINT \<Rightarrow> SqlValue (VI8 (ucast w))
            | SMALLINT \<Rightarrow> SqlValue (VI16 (ucast w))
            | INTEGER \<Rightarrow> SqlValue (VI32 w)
            | BIGINT \<Rightarrow> SqlValue (VI64 (scast w))
            | DECIMAL \<Rightarrow> SqlValue (VDouble (real_of_int (sint w)))
            | _ \<Rightarrow> Failed (ExceptionThrown
                  (''Cannot cast '' @ names (type_id (GetType val)) @ '' to ''
                     @ names (type_id to_type))))"
  using assms
  by (cases "type_id to_type") (simp_all add: cast_defs run_def IsNull_def Value4_def)

lemma uint_ucast_8: "uint (ucast (w :: 32 word) :: 8 word) = uint w mod 2 ^ 8"
  by (simp add: unsigned_ucast_eq take_bit_eq_mod)

lemma uint_ucast_16: "uint (ucast (w :: 32 word) :: 16 word) = uint w mod 2 ^ 16"
  by (simp add: unsigned_ucast_eq take_bit_eq_mod)

lemma sint_scast_64: "sint (scast (w :: 32 word) :: 64 word) = sint w"
  by (simp add: sint_up_scast is_up)

lemma bit_0_low: "bit (w :: 32 word) 0 \<longleftrightarrow> uint w mod 2 = 1"
proof -
  have "bit w 0 \<longleftrightarrow> bit (uint w) 0" by (simp add: bit_uint_iff)
  also have "\<dots> \<longleftrightarrow> odd (uint w)" by (simp only: bit_0)
  also have "\<dots> \<longleftrightarrow> uint w mod 2 = 1" by (simp only: odd_iff_mod_2_eq_one)
  finally show ?thesis .
qed

text \<open>
  C6. For an operand holding the 32-bit integer \<open>w\<close>, \<open>CastInteger_Impl\<close> emits,
  by destination: a truncation to one bit for boolean, so the result is true iff the low
  bit of \<open>w\<close> is 1; a truncation to 8 bits for tinyint and to 16 bits for smallint;
  nothing for integer, where the result carries the operand's own handle; a sign
  extension to 64 bits for bigint, which preserves the signed value; and a conversion of
  the signed integer to floating point for decimal, whose value is that integer. The
  result has the destination Type, and a null handle (constant false) iff that Type is
  nullable.
\<close>

theorem CastInteger_Impl_conversions:
  assumes "eval env (GetValue val) = Inr (VI32 w)"
  shows "(type_id to_type = BOOLEAN \<longrightarrow>
            CastInteger_Impl names codegen val to_type =
              Inr (Value4 to_type (Trunc (GetValue val) Int1Ty) nullptr
                     (if nullable to_type then ConstBool False else nullptr),
                   codegen @ [Instr (Trunc (GetValue val) Int1Ty)])
          \<and> run env codegen (CastInteger_Impl names codegen val to_type)
              = SqlValue (VI1 (bit w 0))
          \<and> (bit w 0 \<longleftrightarrow> uint w mod 2 = 1))
       \<and> (type_id to_type = TINYINT \<longrightarrow>
            CastInteger_Impl names codegen val to_type =
              Inr (Value4 to_type (Trunc (GetValue val) Int8Ty) nullptr
                     (if nullable to_type then ConstBool False else nullptr),
                   codegen @ [Instr (Trunc (GetValue val) Int8Ty)])
          \<and> run env codegen (CastInteger_Impl names codegen val to_type)
              = SqlValue (VI8 (ucast w))
          \<and> uint (ucast w :: 8 word) = uint w mod 2 ^ 8)
       \<and> (type_id to_type = SMALLINT \<longrightarrow>
            CastInteger_Impl names codegen val to_type =
              Inr (Value4 to_type (Trunc (GetValue val) Int16Ty) nullptr
                     (if nullable to_type then ConstBool False else nullptr),
                   codegen @ [Instr (Trunc (GetValue val) Int16Ty)])
          \<and> run env codegen (CastInteger_Impl names codegen val to_type)
              = SqlValue (VI16 (ucast w))
          \<and> uint (ucast w :: 16 word) = uint w mod 2 ^ 16)
       \<and> (type_id to_type = INTEGER \<longrightarrow>
            CastInteger_Impl names codegen val to_type =
              Inr (Value4 to_type (GetValue val) nullptr
                     (if nullable to_type then ConstBool False else nullptr),
                   codegen)
          \<and> run env codegen (CastInteger_Impl names codegen val to_type)
              = SqlValue (VI32 w))
       \<and> (type_id to_type = BIGINT \<longrightarrow>
            CastInteger_Impl names codegen val to_type =
              Inr (Value4 to_type (SExt (GetValue val) Int64Ty) nullptr
                     (if nullable to_type then ConstBool False else nullptr),
                   codegen @ [Instr (SExt (GetValue val) Int64Ty)])
          \<and> run env codegen (CastInteger_Impl names codegen val to_type)
              = SqlValue (VI64 (scast w))
          \<and> sint (scast w :: 64 word) = sint w)
       \<and> (type_id to_type = DECIMAL \<longrightarrow>
            CastInteger_Impl names codegen val to_type =
              Inr (Value4 to_type (SIToFP (GetValue val) DoubleTy) nullptr
                     (if nullable to_type then ConstBool False else nullptr),
                   codegen @ [Instr (SIToFP (GetValue val) DoubleTy)])
          \<and> run env codegen (CastInteger_Impl names codegen val to_type)
              = SqlValue (VDouble (real_of_int (sint w))))"
proof -
  have code:
    "type_id to_type = BOOLEAN \<Longrightarrow>
       CastInteger_Impl names codegen val to_type =
         Inr (Value4 to_type (Trunc (GetValue val) Int1Ty) nullptr
                (if nullable to_type then ConstBool False else nullptr),
              codegen @ [Instr (Trunc (GetValue val) Int1Ty)])"
    "type_id to_type = TINYINT \<Longrightarrow>
       CastInteger_Impl names codegen val to_type =
         Inr (Value4 to_type (Trunc (GetValue val) Int8Ty) nullptr
                (if nullable to_type then ConstBool False else nullptr),
              codegen @ [Instr (Trunc (GetValue val) Int8Ty)])"
    "type_id to_type = SMALLINT \<Longrightarrow>
       CastInteger_Impl names codegen val to_type =
         Inr (Value4 to_type (Trunc (GetValue val) Int16Ty) nullptr
                (if nullable to_type then ConstBool False else nullptr),
              codegen @ [Instr (Trunc (GetValue val) Int16Ty)])"
    "type_id to_type = INTEGER \<Longrightarrow>
       CastInteger_Impl names codegen val to_type =
         Inr (Value4 to_type (GetValue val) nullptr
                (if nullable to_type then ConstBool False else nullptr),
              codegen)"
    "type_id to_type = BIGINT \<Longrightarrow>
       CastInteger_Impl names codegen val to_type =
         Inr (Value4 to_type (SExt (GetValue val) Int64Ty) nullptr
                (if nullable to_type then ConstBool False else nullptr),
              codegen @ [Instr (SExt (GetValue val) Int64Ty)])"
    "type_id to_type = DECIMAL \<Longrightarrow>
       CastInteger_Impl names codegen val to_type =
         Inr (Value4 to_type (SIToFP (GetValue val) DoubleTy) nullptr
                (if nullable to_type then ConstBool False else nullptr),
              codegen @ [Instr (SIToFP (GetValue val) DoubleTy)])"
    by (simp_all add: cast_defs)
  note r = CastInteger_Impl_run [OF assms, of codegen names to_type]
  have runs:
    "type_id to_type = BOOLEAN \<Longrightarrow>
       run env codegen (CastInteger_Impl names codegen val to_type) = SqlValue (VI1 (bit w 0))"
    "type_id to_type = TINYINT \<Longrightarrow>
       run env codegen (CastInteger_Impl names codegen val to_type) = SqlValue (VI8 (ucast w))"
    "type_id to_type = SMALLINT \<Longrightarrow>
       run env codegen (CastInteger_Impl names codegen val to_type) = SqlValue (VI16 (ucast w))"
    "type_id to_type = INTEGER \<Longrightarrow>
       run env codegen (CastInteger_Impl names codegen val to_type) = SqlValue (VI32 w)"
    "type_id to_type = BIGINT \<Longrightarrow>
       run env codegen (CastInteger_Impl names codegen val to_type) = SqlValue (VI64 (scast w))"
    "type_id to_type = DECIMAL \<Longrightarrow>
       run env codegen (CastInteger_Impl names codegen val to_type)
         = SqlValue (VDouble (real_of_int (sint w)))"
    using r by simp_all
  from code runs bit_0_low [of w] uint_ucast_8 [of w] uint_ucast_16 [of w] sint_scast_64 [of w]
  show ?thesis by blast
qed

theorem CastInteger_Impl_conversions_witness:
  "eval no_inputs (GetValue (Integer_Const 300)) = Inr (VI32 300)
   \<and> run no_inputs []
        (CastInteger_Impl enumerator_name [] (Integer_Const 300)
           \<lparr>type_id = BOOLEAN, nullable = False\<rparr>) = SqlValue (VI1 False)
   \<and> run no_inputs []
        (CastInteger_Impl enumerator_name [] (Integer_Const 300)
           \<lparr>type_id = TINYINT, nullable = False\<rparr>) = SqlValue (VI8 44)
   \<and> run no_inputs []
        (CastInteger_Impl enumerator_name [] (Integer_Const 300)
           \<lparr>type_id = SMALLINT, nullable = False\<rparr>) = SqlValue (VI16 300)
   \<and> CastInteger_Impl enumerator_name [] (Integer_Const 300)
           \<lparr>type_id = INTEGER, nullable = True\<rparr>
       = Inr (Value4 \<lparr>type_id = INTEGER, nullable = True\<rparr> (Const32 300) nullptr
                (ConstBool False), [])
   \<and> run no_inputs []
        (CastInteger_Impl enumerator_name [] (Integer_Const 300)
           \<lparr>type_id = BIGINT, nullable = False\<rparr>) = SqlValue (VI64 300)
   \<and> run no_inputs []
        (CastInteger_Impl enumerator_name [] (Integer_Const 300)
           \<lparr>type_id = DECIMAL, nullable = False\<rparr>) = SqlValue (VDouble 300)"
proof -
  have h: "eval no_inputs (GetValue (Integer_Const 300)) = Inr (VI32 300)"
    by (simp add: Integer_Const_simps)
  note t = CastInteger_Impl_conversions [OF h, where names = enumerator_name and codegen = "[]"]
  have ids:
    "type_id \<lparr>type_id = BOOLEAN, nullable = False\<rparr> = BOOLEAN"
    "type_id \<lparr>type_id = TINYINT, nullable = False\<rparr> = TINYINT"
    "type_id \<lparr>type_id = SMALLINT, nullable = False\<rparr> = SMALLINT"
    "type_id \<lparr>type_id = INTEGER, nullable = True\<rparr> = INTEGER"
    "type_id \<lparr>type_id = BIGINT, nullable = False\<rparr> = BIGINT"
    "type_id \<lparr>type_id = DECIMAL, nullable = False\<rparr> = DECIMAL"
    by simp_all
  have vals:
    "bit (300 :: 32 word) 0 = False"
    "(ucast (300 :: 32 word) :: 8 word) = 44"
    "(ucast (300 :: 32 word) :: 16 word) = 300"
    "(scast (300 :: 32 word) :: 64 word) = 300"
    "real_of_int (sint (300 :: 32 word)) = 300"
    by simp_all
  from t [where to_type = "\<lparr>type_id = BOOLEAN, nullable = False\<rparr>"] ids(1)
  have "run no_inputs []
        (CastInteger_Impl enumerator_name [] (Integer_Const 300)
           \<lparr>type_id = BOOLEAN, nullable = False\<rparr>) = SqlValue (VI1 (bit (300 :: 32 word) 0))"
    by blast
  then have r1: "run no_inputs []
        (CastInteger_Impl enumerator_name [] (Integer_Const 300)
           \<lparr>type_id = BOOLEAN, nullable = False\<rparr>) = SqlValue (VI1 False)"
    by (simp only: vals)
  from t [where to_type = "\<lparr>type_id = TINYINT, nullable = False\<rparr>"] ids(2)
  have "run no_inputs []
        (CastInteger_Impl enumerator_name [] (Integer_Const 300)
           \<lparr>type_id = TINYINT, nullable = False\<rparr>) = SqlValue (VI8 (ucast (300 :: 32 word)))"
    by blast
  then have r2: "run no_inputs []
        (CastInteger_Impl enumerator_name [] (Integer_Const 300)
           \<lparr>type_id = TINYINT, nullable = False\<rparr>) = SqlValue (VI8 44)"
    by (simp only: vals)
  from t [where to_type = "\<lparr>type_id = SMALLINT, nullable = False\<rparr>"] ids(3)
  have "run no_inputs []
        (CastInteger_Impl enumerator_name [] (Integer_Const 300)
           \<lparr>type_id = SMALLINT, nullable = False\<rparr>) = SqlValue (VI16 (ucast (300 :: 32 word)))"
    by blast
  then have r3: "run no_inputs []
        (CastInteger_Impl enumerator_name [] (Integer_Const 300)
           \<lparr>type_id = SMALLINT, nullable = False\<rparr>) = SqlValue (VI16 300)"
    by (simp only: vals)
  from t [where to_type = "\<lparr>type_id = INTEGER, nullable = True\<rparr>"] ids(4)
  have "CastInteger_Impl enumerator_name [] (Integer_Const 300)
           \<lparr>type_id = INTEGER, nullable = True\<rparr>
       = Inr (Value4 \<lparr>type_id = INTEGER, nullable = True\<rparr> (GetValue (Integer_Const 300))
                nullptr
                (if nullable \<lparr>type_id = INTEGER, nullable = True\<rparr> then ConstBool False
                 else nullptr), [])"
    by blast
  then have r4: "CastInteger_Impl enumerator_name [] (Integer_Const 300)
           \<lparr>type_id = INTEGER, nullable = True\<rparr>
       = Inr (Value4 \<lparr>type_id = INTEGER, nullable = True\<rparr> (Const32 300) nullptr
                (ConstBool False), [])"
    by (simp add: Integer_Const_simps)
  from t [where to_type = "\<lparr>type_id = BIGINT, nullable = False\<rparr>"] ids(5)
  have "run no_inputs []
        (CastInteger_Impl enumerator_name [] (Integer_Const 300)
           \<lparr>type_id = BIGINT, nullable = False\<rparr>) = SqlValue (VI64 (scast (300 :: 32 word)))"
    by blast
  then have r5: "run no_inputs []
        (CastInteger_Impl enumerator_name [] (Integer_Const 300)
           \<lparr>type_id = BIGINT, nullable = False\<rparr>) = SqlValue (VI64 300)"
    by (simp only: vals)
  from t [where to_type = "\<lparr>type_id = DECIMAL, nullable = False\<rparr>"] ids(6)
  have "run no_inputs []
        (CastInteger_Impl enumerator_name [] (Integer_Const 300)
           \<lparr>type_id = DECIMAL, nullable = False\<rparr>)
          = SqlValue (VDouble (real_of_int (sint (300 :: 32 word))))"
    by blast
  then have r6: "run no_inputs []
        (CastInteger_Impl enumerator_name [] (Integer_Const 300)
           \<lparr>type_id = DECIMAL, nullable = False\<rparr>) = SqlValue (VDouble 300)"
    by (simp only: vals)
  from h r1 r2 r3 r4 r5 r6 show ?thesis by blast
qed

text \<open>
  C7. \<open>CastInteger_SupportsTypes\<close> holds exactly when the source's SqlType is the
  integer type and the destination is one of boolean, tinyint, smallint, integer, bigint
  and decimal; it never holds for a varchar destination. For every other destination
  \<open>CastInteger_Impl\<close> fails with an exception whose message is "Cannot cast",
  the name of the operand's type, "to", and the name of the destination type.
\<close>

theorem CastInteger_allow_list:
  "(CastInteger_SupportsTypes from_type to_type \<longleftrightarrow>
      GetSqlType from_type = Integer_Instance
      \<and> type_id to_type \<in> {BOOLEAN, TINYINT, SMALLINT, INTEGER, BIGINT, DECIMAL})
   \<and> (type_id to_type = VARCHAR \<longrightarrow> \<not> CastInteger_SupportsTypes from_type to_type)
   \<and> (type_id to_type \<notin> {BOOLEAN, TINYINT, SMALLINT, INTEGER, BIGINT, DECIMAL} \<longrightarrow>
        CastInteger_Impl names codegen val to_type =
          Inl (ExceptionThrown
                (''Cannot cast '' @ names (type_id (GetType val)) @ '' to ''
                   @ names (type_id to_type))))"
  by (cases "type_id to_type")
    (simp_all add: CastInteger_SupportsTypes_def CastInteger_Impl_def GetSqlType_def)

theorem CastInteger_allow_list_witness:
  "type_id \<lparr>type_id = VARCHAR, nullable = False\<rparr> = VARCHAR
   \<and> type_id \<lparr>type_id = VARCHAR, nullable = False\<rparr>
        \<notin> {BOOLEAN, TINYINT, SMALLINT, INTEGER, BIGINT, DECIMAL}
   \<and> \<not> CastInteger_SupportsTypes (Type_of Integer_Instance)
          \<lparr>type_id = VARCHAR, nullable = False\<rparr>
   \<and> CastInteger_Impl enumerator_name [] (Integer_Const 1)
        \<lparr>type_id = VARCHAR, nullable = False\<rparr>
       = Inl (ExceptionThrown ''Cannot cast INTEGER to VARCHAR'')
   \<and> CastInteger_SupportsTypes (Type_of Integer_Instance)
        \<lparr>type_id = BIGINT, nullable = False\<rparr>"
  using CastInteger_allow_list
    [of "Type_of Integer_Instance" "\<lparr>type_id = VARCHAR, nullable = False\<rparr>"
        enumerator_name "[]" "Integer_Const 1"]
    CastInteger_allow_list
    [of "Type_of Integer_Instance" "\<lparr>type_id = BIGINT, nullable = False\<rparr>"
        enumerator_name "[]" "Integer_Const 1"]
  by (simp add: Integer_Const_simps Type_of_def GetSqlType_def Integer_Instance_def)

section \<open>Supported operand types\<close>

text \<open>
  C8. For the comparison and for add, subtract, multiply, divide and modulo,
  \<open>SupportsTypes\<close> holds exactly when both operand Types have the integer SqlType.
  It depends on nothing else: changing the nullability of either operand Type does not
  change the answer.
\<close>

theorem SupportsTypes_identical_integer_SqlType:
  "(CompareInteger_SupportsTypes left_type right_type \<longleftrightarrow>
      GetSqlType left_type = Integer_Instance \<and> GetSqlType right_type = Integer_Instance)
   \<and> (Add_SupportsTypes left_type right_type \<longleftrightarrow>
      GetSqlType left_type = Integer_Instance \<and> GetSqlType right_type = Integer_Instance)
   \<and> (Sub_SupportsTypes left_type right_type \<longleftrightarrow>
      GetSqlType left_type = Integer_Instance \<and> GetSqlType right_type = Integer_Instance)
   \<and> (Mul_SupportsTypes left_type right_type \<longleftrightarrow>
      GetSqlType left_type = Integer_Instance \<and> GetSqlType right_type = Integer_Instance)
   \<and> (Div_SupportsTypes left_type right_type \<longleftrightarrow>
      GetSqlType left_type = Integer_Instance \<and> GetSqlType right_type = Integer_Instance)
   \<and> (Modulo_SupportsTypes left_type right_type \<longleftrightarrow>
      GetSqlType left_type = Integer_Instance \<and> GetSqlType right_type = Integer_Instance)
   \<and> CompareInteger_SupportsTypes (left_type\<lparr>nullable := m\<rparr>) (right_type\<lparr>nullable := n\<rparr>)
       = CompareInteger_SupportsTypes left_type right_type
   \<and> Add_SupportsTypes (left_type\<lparr>nullable := m\<rparr>) (right_type\<lparr>nullable := n\<rparr>)
       = Add_SupportsTypes left_type right_type
   \<and> Sub_SupportsTypes (left_type\<lparr>nullable := m\<rparr>) (right_type\<lparr>nullable := n\<rparr>)
       = Sub_SupportsTypes left_type right_type
   \<and> Mul_SupportsTypes (left_type\<lparr>nullable := m\<rparr>) (right_type\<lparr>nullable := n\<rparr>)
       = Mul_SupportsTypes left_type right_type
   \<and> Div_SupportsTypes (left_type\<lparr>nullable := m\<rparr>) (right_type\<lparr>nullable := n\<rparr>)
       = Div_SupportsTypes left_type right_type
   \<and> Modulo_SupportsTypes (left_type\<lparr>nullable := m\<rparr>) (right_type\<lparr>nullable := n\<rparr>)
       = Modulo_SupportsTypes left_type right_type"
  by (auto simp add: same_integer_type_defs CompareInteger_SupportsTypes_def GetSqlType_def
      Type_of_def)

theorem SupportsTypes_identical_integer_SqlType_witness:
  "Add_SupportsTypes (Type_of Integer_Instance) (Type_of Integer_Instance)
   \<and> Add_SupportsTypes \<lparr>type_id = INTEGER, nullable = True\<rparr>
        \<lparr>type_id = INTEGER, nullable = False\<rparr>
   \<and> Modulo_SupportsTypes (Type_of Integer_Instance) (Type_of Integer_Instance)
   \<and> CompareInteger_SupportsTypes \<lparr>type_id = INTEGER, nullable = True\<rparr>
        \<lparr>type_id = INTEGER, nullable = True\<rparr>
   \<and> \<not> Add_SupportsTypes (Type_of Integer_Instance) (Type_of Decimal_Instance)
   \<and> \<not> CompareInteger_SupportsTypes (Type_of Decimal_Instance) (Type_of Decimal_Instance)"
  using SupportsTypes_identical_integer_SqlType
      [of "Type_of Integer_Instance" "Type_of Integer_Instance"]
    SupportsTypes_identical_integer_SqlType
      [of "\<lparr>type_id = INTEGER, nullable = True\<rparr>" "\<lparr>type_id = INTEGER, nullable = False\<rparr>"]
    SupportsTypes_identical_integer_SqlType
      [of "\<lparr>type_id = INTEGER, nullable = True\<rparr>" "\<lparr>type_id = INTEGER, nullable = True\<rparr>"]
    SupportsTypes_identical_integer_SqlType
      [of "Type_of Integer_Instance" "Type_of Decimal_Instance"]
    SupportsTypes_identical_integer_SqlType
      [of "Type_of Decimal_Instance" "Type_of Decimal_Instance"]
  by (simp add: Type_of_def GetSqlType_def Integer_Instance_def Decimal_Instance_def)

end
